theory Spec2Isabelle
  imports Main "HOL-Library.Word"
begin

section \<open>The GPU runtime engine: allocation policy, usage ledger, factory\<close>

text \<open>
  A shallow embedding of \<^verbatim>\<open>src/plugins/intel_gpu/src/runtime/engine.cpp\<close>
  (namespace \<^verbatim>\<open>cldnn\<close>). Member functions take the engine as an argument; the
  ones that write to the engine return the engine they leave behind. Every member function
  of the ledger holds \<^verbatim>\<open>_mutex\<close> from its first to its last statement, so each
  call is one atomic step on the engine and a sequential model is exact for it.
\<close>

subsection \<open>Types declared outside engine.cpp\<close>

text \<open>
  Modelled from the spec: the enumeration \<^verbatim>\<open>allocation_type\<close>, declared in a header
  that is not among the sources. The spec lists it as the closed enumeration
  unified_device, unified_host, unified_shared, plain_buffer, image; the three unified
  members carry the names engine.cpp uses for them.
\<close>

datatype allocation_type = usm_device | usm_host | usm_shared | plain_buffer | image_t

text \<open>
  Modelled from the spec: the class \<^verbatim>\<open>memory_capabilities\<close>, of which engine.cpp
  calls \<^verbatim>\<open>supports_usm\<close>, \<^verbatim>\<open>support_allocation_type\<close> and the static
  \<^verbatim>\<open>is_usm_type\<close>. The spec describes it as the capability set of a device: which
  allocation types are supported, and whether unified shared memory is available at all.
\<close>

record memory_capabilities =
  usm_available :: bool
  supported_types :: "allocation_type set"

definition supports_usm :: "memory_capabilities \<Rightarrow> bool" where
  "supports_usm caps = usm_available caps"

definition support_allocation_type :: "memory_capabilities \<Rightarrow> allocation_type \<Rightarrow> bool" where
  "support_allocation_type caps ty = (ty \<in> supported_types caps)"

fun is_usm_type :: "allocation_type \<Rightarrow> bool" where
  "is_usm_type usm_device = True"
| "is_usm_type usm_host = True"
| "is_usm_type usm_shared = True"
| "is_usm_type plain_buffer = False"
| "is_usm_type image_t = False"

text \<open>The device: engine.cpp reads its info (for the name) and its memory capabilities.\<close>

record device_info =
  dev_name :: string

record device =
  get_info :: device_info
  get_mem_caps :: memory_capabilities

text \<open>
  The debug configuration is a process-wide object; of it engine.cpp reads
  \<^verbatim>\<open>disable_usm\<close>. In a build without the debug configuration the test is compiled
  to a constant false, which is the configuration with \<open>disable_usm = False\<close>.
\<close>

record debug_configuration =
  disable_usm :: bool

type_synonym u64 = "64 word"

text \<open>
  The engine: its device, the two ledger maps
  (\<^verbatim>\<open>std::map<allocation_type, std::atomic<uint64_t>>\<close>), and the value of the
  virtual \<^verbatim>\<open>get_default_allocation_type\<close>, which the backend's subclass supplies.
\<close>

record engine =
  engine_device :: device
  default_allocation_type :: allocation_type
  memory_usage_map :: "allocation_type \<rightharpoonup> u64"
  peak_memory_usage_map :: "allocation_type \<rightharpoonup> u64"

text \<open>
  \<^verbatim>\<open>OPENVINO_ASSERT\<close> throws an assertion failure carrying its message; the ledger
  and the factory throw \<^verbatim>\<open>std::runtime_error\<close>.
\<close>

datatype error = AssertFailure string | RuntimeError string

subsection \<open>Capability adapter\<close>

definition get_default_allocation_type :: "engine \<Rightarrow> allocation_type" where
  "get_default_allocation_type e = default_allocation_type e"

definition use_unified_shared_memory :: "debug_configuration \<Rightarrow> engine \<Rightarrow> bool" where
  "use_unified_shared_memory cfg e =
     (if disable_usm cfg then False
      else if supports_usm (get_mem_caps (engine_device e)) then True
      else False)"

definition supports_allocation ::
  "debug_configuration \<Rightarrow> engine \<Rightarrow> allocation_type \<Rightarrow> bool" where
  "supports_allocation cfg e ty =
     (if is_usm_type ty \<and> \<not> use_unified_shared_memory cfg e then False
      else if usm_shared = ty then False
      else support_allocation_type (get_mem_caps (engine_device e)) ty)"

subsection \<open>Allocation policy\<close>

definition get_lockable_preferred_memory_allocation_type ::
  "debug_configuration \<Rightarrow> engine \<Rightarrow> bool \<Rightarrow> error + allocation_type" where
  "get_lockable_preferred_memory_allocation_type cfg e is_image_layout =
     (if \<not> use_unified_shared_memory cfg e \<or> is_image_layout
      then Inr (get_default_allocation_type e)
      else
        let support_usm_host = supports_allocation cfg e usm_host;
            support_usm_shared = supports_allocation cfg e usm_shared
        in if support_usm_shared then Inr usm_shared
           else if support_usm_host then Inr usm_host
           else Inl (AssertFailure
             (''[GPU] Couldn'' @ [CHR 0x27] @ ''t find proper allocation type in '' @
              ''get_lockable_preferred_memory_allocation_type method'')))"

definition get_preferred_memory_allocation_type ::
  "debug_configuration \<Rightarrow> engine \<Rightarrow> bool \<Rightarrow> error + allocation_type" where
  "get_preferred_memory_allocation_type cfg e is_image_layout =
     (if \<not> use_unified_shared_memory cfg e \<or> is_image_layout
      then Inr (get_default_allocation_type e)
      else if supports_allocation cfg e usm_device then Inr usm_device
      else if supports_allocation cfg e usm_host then Inr usm_host
      else Inl (AssertFailure
        (''[GPU] Couldn'' @ [CHR 0x27] @ ''t find proper allocation type in '' @
         ''get_preferred_memory_allocation_type method'')))"

subsection \<open>The allocate entry point\<close>

text \<open>
  Of a layout the entry point reads \<^verbatim>\<open>layout.format.is_image_2d()\<close> only. The
  three-argument \<^verbatim>\<open>allocate_memory(layout, type, reset)\<close> it delegates to is the
  backend's (a virtual member with no body in engine.cpp), so it is a parameter here: given
  the engine, it returns a memory object or an error, and the engine it leaves behind.
\<close>

record format_t =
  is_image_2d :: bool

record layout =
  format :: format_t

definition allocate_memory ::
  "debug_configuration \<Rightarrow>
   (engine \<Rightarrow> layout \<Rightarrow> allocation_type \<Rightarrow> bool \<Rightarrow> (error + 'm) \<times> engine) \<Rightarrow>
   engine \<Rightarrow> layout \<Rightarrow> bool \<Rightarrow> (error + 'm) \<times> engine" where
  "allocate_memory cfg allocate_memory_typed e l reset =
     (case get_lockable_preferred_memory_allocation_type cfg e (is_image_2d (format l)) of
        Inl err \<Rightarrow> (Inl err, e)
      | Inr ty \<Rightarrow> allocate_memory_typed e l ty reset)"

subsection \<open>Usage ledger\<close>

text \<open>
  \<^verbatim>\<open>std::map::operator[]\<close> inserts a value-initialised (zero) counter when the key
  is absent; \<open>subscript\<close> is that insertion and \<open>load\<close> the counter then read.
  The counters are \<^verbatim>\<open>uint64_t\<close>: \<open>+\<close> and \<open>-\<close> on \<open>u64\<close> wrap around
  as \<^verbatim>\<open>+=\<close> and \<^verbatim>\<open>-=\<close> on the atomic do.
\<close>

definition subscript ::
  "(allocation_type \<rightharpoonup> u64) \<Rightarrow> allocation_type \<Rightarrow> (allocation_type \<rightharpoonup> u64)" where
  "subscript m ty = (case m ty of None \<Rightarrow> m(ty \<mapsto> 0) | Some v \<Rightarrow> m)"

definition load :: "(allocation_type \<rightharpoonup> u64) \<Rightarrow> allocation_type \<Rightarrow> u64" where
  "load m ty = (case m ty of None \<Rightarrow> 0 | Some v \<Rightarrow> v)"

definition get_max_used_device_memory :: "engine \<Rightarrow> allocation_type \<Rightarrow> u64" where
  "get_max_used_device_memory e ty =
     (case peak_memory_usage_map e ty of Some v \<Rightarrow> v | None \<Rightarrow> 0)"

definition get_used_device_memory :: "engine \<Rightarrow> allocation_type \<Rightarrow> u64" where
  "get_used_device_memory e ty =
     (case memory_usage_map e ty of Some v \<Rightarrow> v | None \<Rightarrow> 0)"

definition add_memory_used :: "engine \<Rightarrow> u64 \<Rightarrow> allocation_type \<Rightarrow> engine" where
  "add_memory_used e bytes ty =
     (let u0 = memory_usage_map e;
          p0 = peak_memory_usage_map e;
          first_use = (u0 ty = None \<and> p0 ty = None);
          u1 = (if first_use then u0(ty \<mapsto> 0) else u0);
          p1 = (if first_use then p0(ty \<mapsto> 0) else p0);
          u2 = subscript u1 ty;
          u3 = u2(ty \<mapsto> load u2 ty + bytes);
          p2 = subscript p1 ty;
          p3 = (if load u3 ty > load p2 ty then p2(ty \<mapsto> load u3 ty) else p2)
      in e\<lparr>memory_usage_map := u3, peak_memory_usage_map := p3\<rparr>)"

text \<open>
  A call that throws returns the error together with the engine as the throw leaves it.
\<close>

definition subtract_memory_used ::
  "engine \<Rightarrow> u64 \<Rightarrow> allocation_type \<Rightarrow> (error + unit) \<times> engine" where
  "subtract_memory_used e bytes ty =
     (case memory_usage_map e ty of
        Some v \<Rightarrow> (Inr (), e\<lparr>memory_usage_map := (memory_usage_map e)(ty \<mapsto> v - bytes)\<rparr>)
      | None \<Rightarrow> (Inl (RuntimeError ''Attempt to free unallocated memory''), e))"

subsection \<open>Sequences of ledger calls on one allocation type\<close>

text \<open>
  A caller's credits and debits on one type, issued one after the other. Each call runs to
  its end (it returns or it throws) before the next one starts; the next call sees the
  engine the previous one left.
\<close>

datatype ledger_call = Credit u64 | Debit u64

fun perform :: "allocation_type \<Rightarrow> engine \<Rightarrow> ledger_call \<Rightarrow> (error + unit) \<times> engine" where
  "perform ty e (Credit bytes) = (Inr (), add_memory_used e bytes ty)"
| "perform ty e (Debit bytes) = subtract_memory_used e bytes ty"

fun after_calls :: "allocation_type \<Rightarrow> engine \<Rightarrow> ledger_call list \<Rightarrow> engine" where
  "after_calls ty e [] = e"
| "after_calls ty e (c # cs) = after_calls ty (snd (perform ty e c)) cs"

text \<open>The engine before the first call and after each call, in order.\<close>

fun ledger_states :: "allocation_type \<Rightarrow> engine \<Rightarrow> ledger_call list \<Rightarrow> engine list" where
  "ledger_states ty e [] = [e]"
| "ledger_states ty e (c # cs) = e # ledger_states ty (snd (perform ty e c)) cs"

text \<open>The totals of a sequence, as natural numbers (no wrap-around).\<close>

fun credited :: "ledger_call list \<Rightarrow> nat" where
  "credited [] = 0"
| "credited (Credit bytes # cs) = unat bytes + credited cs"
| "credited (Debit bytes # cs) = credited cs"

fun debited :: "ledger_call list \<Rightarrow> nat" where
  "debited [] = 0"
| "debited (Credit bytes # cs) = debited cs"
| "debited (Debit bytes # cs) = unat bytes + debited cs"

text \<open>Each debit is at most the balance \<open>get_used_device_memory\<close> reports when it is issued.\<close>

fun debits_covered :: "allocation_type \<Rightarrow> engine \<Rightarrow> ledger_call list \<Rightarrow> bool" where
  "debits_covered ty e [] = True"
| "debits_covered ty e (Credit bytes # cs) =
     debits_covered ty (snd (perform ty e (Credit bytes))) cs"
| "debits_covered ty e (Debit bytes # cs) =
     (bytes \<le> get_used_device_memory e ty \<and>
      debits_covered ty (snd (perform ty e (Debit bytes))) cs)"

subsection \<open>Engine factory\<close>

text \<open>
  The enumeration \<^verbatim>\<open>engine_types\<close> is declared in a header that is not among the
  sources; the factory's \<^verbatim>\<open>switch\<close> names its member \<^verbatim>\<open>ocl\<close> and has a
  \<^verbatim>\<open>default\<close> branch for any other value. The runtime type is only passed on and
  printed, so it is a type parameter.

  What the factory calls outside engine.cpp is collected in one record: device discovery
  (the map of the devices found, as the list of its entries in key order), the decimal
  string of \<^verbatim>\<open>device_query::device_id\<close>, the backend's engine constructor, and the
  stream output of the two enumerations.
\<close>

datatype engine_types = ocl | other_engine_type

record 'rt factory_env =
  get_available_devices :: "engine_types \<Rightarrow> 'rt \<Rightarrow> (string \<times> device) list"
  device_id_string :: string
  create_ocl_engine :: "device \<Rightarrow> 'rt \<Rightarrow> error + engine"
  print_engine_type :: "engine_types \<Rightarrow> string"
  print_runtime_type :: "'rt \<Rightarrow> string"

definition create_with_device ::
  "'rt factory_env \<Rightarrow> engine_types \<Rightarrow> 'rt \<Rightarrow> device \<Rightarrow> error + engine" where
  "create_with_device env engine_type runtime_type dev =
     (case engine_type of
        ocl \<Rightarrow> create_ocl_engine env dev runtime_type
      | other_engine_type \<Rightarrow> Inl (RuntimeError ''Invalid engine type''))"

definition no_devices_message :: "'rt factory_env \<Rightarrow> engine_types \<Rightarrow> 'rt \<Rightarrow> string" where
  "no_devices_message env engine_type runtime_type =
     ''[GPU] Can'' @ [CHR 0x27] @ ''t create '' @ print_engine_type env engine_type @
     '' engine for '' @ print_runtime_type env runtime_type @
     '' runtime as no suitable devices are found'' @ [CHR 0x0A] @
     ''[GPU] Please check OpenVINO documentation for GPU drivers setup guide.'' @ [CHR 0x0A]"

definition create :: "'rt factory_env \<Rightarrow> engine_types \<Rightarrow> 'rt \<Rightarrow> error + engine" where
  "create env engine_type runtime_type =
     (let devices = get_available_devices env engine_type runtime_type
      in case devices of
           [] \<Rightarrow> Inl (AssertFailure (no_devices_message env engine_type runtime_type))
         | first # _ \<Rightarrow>
             let dev = (case map_of devices (device_id_string env) of
                          Some d \<Rightarrow> d
                        | None \<Rightarrow> snd first)
             in create_with_device env engine_type runtime_type dev)"

subsection \<open>Concrete configurations\<close>

text \<open>
  A device that reports every unified tier and plain buffers, with unified shared memory
  available; an engine on it with an empty ledger; the debug configuration that does not
  disable unified shared memory; the layout of a buffer (not a 2D image); a backend that
  answers an allocation request with the allocation type it was asked for; and a factory
  environment whose device discovery finds nothing.
\<close>

definition usm_enabled :: debug_configuration where
  "usm_enabled = \<lparr>disable_usm = False\<rparr>"

definition all_tiers_device :: device where
  "all_tiers_device =
     \<lparr>get_info = \<lparr>dev_name = ''GPU.0''\<rparr>,
      get_mem_caps = \<lparr>usm_available = True,
                      supported_types = {usm_device, usm_host, usm_shared, plain_buffer}\<rparr>\<rparr>"

definition all_tiers_engine :: engine where
  "all_tiers_engine =
     \<lparr>engine_device = all_tiers_device, default_allocation_type = plain_buffer,
      memory_usage_map = Map.empty, peak_memory_usage_map = Map.empty\<rparr>"

definition buffer_layout :: layout where
  "buffer_layout = \<lparr>format = \<lparr>is_image_2d = False\<rparr>\<rparr>"

definition image_layout :: layout where
  "image_layout = \<lparr>format = \<lparr>is_image_2d = True\<rparr>\<rparr>"

definition reporting_backend ::
  "engine \<Rightarrow> layout \<Rightarrow> allocation_type \<Rightarrow> bool \<Rightarrow> (error + allocation_type) \<times> engine" where
  "reporting_backend e l ty reset = (Inr ty, e)"

definition no_device_env :: "unit factory_env" where
  "no_device_env =
     \<lparr>get_available_devices = (\<lambda>engine_type runtime_type. []),
      device_id_string = ''0'',
      create_ocl_engine = (\<lambda>dev runtime_type. Inr (all_tiers_engine\<lparr>engine_device := dev\<rparr>)),
      print_engine_type = (\<lambda>engine_type. ''ocl''),
      print_runtime_type = (\<lambda>runtime_type. ''ocl'')\<rparr>"

section \<open>Properties\<close>

subsection \<open>Ledger steps\<close>

lemma get_used_add:
  "get_used_device_memory (add_memory_used e bytes ty) ty = get_used_device_memory e ty + bytes"
  by (simp add: get_used_device_memory_def add_memory_used_def Let_def subscript_def load_def
      split: option.splits)

lemma get_max_add:
  "get_max_used_device_memory (add_memory_used e bytes ty) ty =
     max (get_max_used_device_memory e ty) (get_used_device_memory e ty + bytes)"
  by (auto simp add: get_max_used_device_memory_def get_used_device_memory_def add_memory_used_def
      Let_def subscript_def load_def max_def word_gt_0 split: option.splits)

lemma get_max_subtract:
  "get_max_used_device_memory (snd (subtract_memory_used e bytes ty)) ty =
     get_max_used_device_memory e ty"
  by (simp add: get_max_used_device_memory_def subtract_memory_used_def split: option.splits)

lemma get_used_subtract_covered:
  "bytes \<le> get_used_device_memory e ty \<Longrightarrow>
   get_used_device_memory (snd (subtract_memory_used e bytes ty)) ty =
     get_used_device_memory e ty - bytes"
  by (auto simp add: get_used_device_memory_def subtract_memory_used_def split: option.splits)

lemma unat_add_mod: "unat ((a::u64) + b) = (unat a + unat b) mod 2 ^ 64"
  by (simp add: unat_word_ariths)

lemma unat_sub_le: "(b::u64) \<le> a \<Longrightarrow> unat (a - b) = unat a - unat b"
  by (simp add: unat_sub)

lemma use_usm_all_tiers: "use_unified_shared_memory usm_enabled all_tiers_engine"
  by (simp add: use_unified_shared_memory_def usm_enabled_def all_tiers_engine_def
      all_tiers_device_def supports_usm_def)

subsection \<open>Capability adapter and allocation policy\<close>

text \<open>
  C5. Whatever the device's capability set and whatever the debug configuration, the
  support query answers false for \<open>usm_shared\<close>: also when unified shared memory is usable
  and the device lists \<open>usm_shared\<close> among its supported types.
\<close>

theorem supports_allocation_usm_shared_false:
  "supports_allocation cfg e usm_shared = False"
  by (simp add: supports_allocation_def)

theorem supports_allocation_usm_shared_false_witness:
  "use_unified_shared_memory usm_enabled all_tiers_engine \<and>
   support_allocation_type (get_mem_caps (engine_device all_tiers_engine)) usm_shared \<and>
   supports_allocation usm_enabled all_tiers_engine usm_shared = False"
proof -
  have listed: "support_allocation_type (get_mem_caps (engine_device all_tiers_engine)) usm_shared"
    by (simp add: support_allocation_type_def all_tiers_engine_def all_tiers_device_def)
  show ?thesis
    using use_usm_all_tiers listed
      supports_allocation_usm_shared_false [of usm_enabled all_tiers_engine]
    by simp
qed

text \<open>
  C9. For an image layout both policy functions return the engine's default allocation
  type, whatever the capability set and the debug configuration are.
\<close>

theorem image_layout_gets_default_type:
  "get_preferred_memory_allocation_type cfg e True = Inr (get_default_allocation_type e) \<and>
   get_lockable_preferred_memory_allocation_type cfg e True = Inr (get_default_allocation_type e)"
  by (simp add: get_preferred_memory_allocation_type_def
      get_lockable_preferred_memory_allocation_type_def)

theorem image_layout_gets_default_type_witness:
  "get_preferred_memory_allocation_type usm_enabled all_tiers_engine True = Inr plain_buffer \<and>
   get_lockable_preferred_memory_allocation_type usm_enabled all_tiers_engine True =
     Inr plain_buffer"
  using image_layout_gets_default_type [of usm_enabled all_tiers_engine]
  by (simp add: get_default_allocation_type_def all_tiers_engine_def)

subsection \<open>Debits on a type the ledger has no entry for\<close>

text \<open>
  C6. A debit on an allocation type that has no entry in the usage map fails: the call
  throws the runtime error "Attempt to free unallocated memory", whatever the amount.
\<close>

theorem subtract_untracked_type_fails:
  "memory_usage_map e ty = None \<Longrightarrow>
   fst (subtract_memory_used e bytes ty) =
     Inl (RuntimeError ''Attempt to free unallocated memory'')"
  by (simp add: subtract_memory_used_def)

theorem subtract_untracked_type_fails_witness:
  "memory_usage_map all_tiers_engine usm_host = None \<and>
   fst (subtract_memory_used all_tiers_engine 16 usm_host) =
     Inl (RuntimeError ''Attempt to free unallocated memory'')"
proof -
  have none: "memory_usage_map all_tiers_engine usm_host = None"
    by (simp add: all_tiers_engine_def)
  show ?thesis
    using none subtract_untracked_type_fails [OF none, of 16] by simp
qed

text \<open>
  C10. A debit that fails because the type has no entry leaves the engine exactly as it
  was: both ledger maps are the ones before the call, and the type still has no entry.
\<close>

theorem subtract_untracked_type_leaves_engine:
  "memory_usage_map e ty = None \<Longrightarrow>
   snd (subtract_memory_used e bytes ty) = e \<and>
   memory_usage_map (snd (subtract_memory_used e bytes ty)) = memory_usage_map e \<and>
   peak_memory_usage_map (snd (subtract_memory_used e bytes ty)) = peak_memory_usage_map e \<and>
   memory_usage_map (snd (subtract_memory_used e bytes ty)) ty = None"
  by (simp add: subtract_memory_used_def)

theorem subtract_untracked_type_leaves_engine_witness:
  "memory_usage_map (add_memory_used all_tiers_engine 8 usm_device) usm_host = None \<and>
   snd (subtract_memory_used (add_memory_used all_tiers_engine 8 usm_device) 16 usm_host) =
     add_memory_used all_tiers_engine 8 usm_device \<and>
   get_used_device_memory
     (snd (subtract_memory_used (add_memory_used all_tiers_engine 8 usm_device) 16 usm_host))
     usm_device = 8"
proof -
  have none: "memory_usage_map (add_memory_used all_tiers_engine 8 usm_device) usm_host = None"
    by (simp add: all_tiers_engine_def add_memory_used_def Let_def subscript_def load_def)
  have used: "get_used_device_memory (add_memory_used all_tiers_engine 8 usm_device) usm_device = 8"
    by (simp add: get_used_add) (simp add: get_used_device_memory_def all_tiers_engine_def)
  show ?thesis
    using none used subtract_untracked_type_leaves_engine [OF none, of 16] by simp
qed


subsection \<open>The lockable-preferred policy and the allocate entry point\<close>

lemma supports_usm_host_iff:
  "use_unified_shared_memory cfg e \<Longrightarrow>
   supports_allocation cfg e usm_host =
     support_allocation_type (get_mem_caps (engine_device e)) usm_host"
  by (simp add: supports_allocation_def)

lemma lockable_with_usm:
  "use_unified_shared_memory cfg e \<Longrightarrow>
   get_lockable_preferred_memory_allocation_type cfg e False =
     (if support_allocation_type (get_mem_caps (engine_device e)) usm_host then Inr usm_host
      else Inl (AssertFailure
        (''[GPU] Couldn'' @ [CHR 0x27] @ ''t find proper allocation type in '' @
         ''get_lockable_preferred_memory_allocation_type method'')))"
  by (simp add: get_lockable_preferred_memory_allocation_type_def supports_usm_host_iff
      supports_allocation_def Let_def)

lemma all_tiers_lists:
  "support_allocation_type (get_mem_caps (engine_device all_tiers_engine)) usm_shared"
  "support_allocation_type (get_mem_caps (engine_device all_tiers_engine)) usm_host"
  "support_allocation_type (get_mem_caps (engine_device all_tiers_engine)) usm_device"
  by (simp_all add: support_allocation_type_def all_tiers_engine_def all_tiers_device_def)

text \<open>
  C1, as stated, fails: on the engine whose device reports every unified tier, with
  unified shared memory usable, the lockable-preferred policy answers \<open>usm_host\<close> for a
  buffer layout, not \<open>usm_shared\<close>.
\<close>

theorem lockable_preferred_usm_shared_counterexample:
  "use_unified_shared_memory usm_enabled all_tiers_engine \<and>
   support_allocation_type (get_mem_caps (engine_device all_tiers_engine)) usm_shared \<and>
   get_lockable_preferred_memory_allocation_type usm_enabled all_tiers_engine False =
     Inr usm_host \<and>
   get_lockable_preferred_memory_allocation_type usm_enabled all_tiers_engine False \<noteq>
     Inr usm_shared"
  using use_usm_all_tiers all_tiers_lists
  by (simp add: lockable_with_usm)

text \<open>
  C1, amended. When unified shared memory is usable and the device reports support for
  \<open>usm_shared\<close>, the lockable-preferred policy for a buffer layout never returns
  \<open>usm_shared\<close>: the support query it consults answers false for that type. It returns
  \<open>usm_host\<close> when the device reports support for \<open>usm_host\<close>, and otherwise fails
  with the assertion "Couldn't find proper allocation type".
\<close>

theorem lockable_preferred_falls_to_usm_host:
  assumes "use_unified_shared_memory cfg e"
    and "support_allocation_type (get_mem_caps (engine_device e)) usm_shared"
  shows "get_lockable_preferred_memory_allocation_type cfg e False \<noteq> Inr usm_shared \<and>
    get_lockable_preferred_memory_allocation_type cfg e False =
      (if support_allocation_type (get_mem_caps (engine_device e)) usm_host then Inr usm_host
       else Inl (AssertFailure
         (''[GPU] Couldn'' @ [CHR 0x27] @ ''t find proper allocation type in '' @
          ''get_lockable_preferred_memory_allocation_type method'')))"
  using assms(1) by (simp add: lockable_with_usm)

theorem lockable_preferred_falls_to_usm_host_witness:
  "use_unified_shared_memory usm_enabled all_tiers_engine \<and>
   support_allocation_type (get_mem_caps (engine_device all_tiers_engine)) usm_shared \<and>
   get_lockable_preferred_memory_allocation_type usm_enabled all_tiers_engine False =
     Inr usm_host"
  using use_usm_all_tiers all_tiers_lists
    lockable_preferred_falls_to_usm_host [OF use_usm_all_tiers all_tiers_lists(1)]
  by simp

text \<open>
  C2, as stated, fails: on the engine whose device reports every unified tier the general
  policy chooses \<open>usm_device\<close> for a buffer layout, and the entry point asks the backend
  for \<open>usm_host\<close>.
\<close>

theorem allocate_memory_general_policy_counterexample:
  "get_preferred_memory_allocation_type usm_enabled all_tiers_engine
     (is_image_2d (format buffer_layout)) = Inr usm_device \<and>
   allocate_memory usm_enabled reporting_backend all_tiers_engine buffer_layout False =
     (Inr usm_host, all_tiers_engine) \<and>
   allocate_memory usm_enabled reporting_backend all_tiers_engine buffer_layout False \<noteq>
     reporting_backend all_tiers_engine buffer_layout usm_device False"
proof -
  have general: "get_preferred_memory_allocation_type usm_enabled all_tiers_engine False =
      Inr usm_device"
    using use_usm_all_tiers all_tiers_lists
    by (simp add: get_preferred_memory_allocation_type_def supports_allocation_def)
  have lockable: "get_lockable_preferred_memory_allocation_type usm_enabled all_tiers_engine
      False = Inr usm_host"
    using use_usm_all_tiers all_tiers_lists by (simp add: lockable_with_usm)
  show ?thesis
    using general lockable
    by (simp add: allocate_memory_def buffer_layout_def reporting_backend_def)
qed

text \<open>
  C2, amended. The allocate entry point taking (layout, reset) selects its allocation type
  with the lockable-preferred policy, applied to the layout's 2D-image flag, and then
  invokes the backend allocation with that type; when the policy fails, the failure is
  returned, the backend is not invoked and the engine is left as it was. So for a buffer
  layout on an engine where unified shared memory is usable and the device reports
  \<open>usm_host\<close>, the backend is asked for \<open>usm_host\<close>, whether or not the device reports
  \<open>usm_device\<close>.
\<close>

theorem allocate_memory_uses_lockable_policy:
  "allocate_memory cfg backend e l reset =
     (case get_lockable_preferred_memory_allocation_type cfg e (is_image_2d (format l)) of
        Inl err \<Rightarrow> (Inl err, e)
      | Inr ty \<Rightarrow> backend e l ty reset) \<and>
   (use_unified_shared_memory cfg e \<and> \<not> is_image_2d (format l) \<and>
    support_allocation_type (get_mem_caps (engine_device e)) usm_host \<longrightarrow>
      allocate_memory cfg backend e l reset = backend e l usm_host reset)"
  by (simp add: allocate_memory_def lockable_with_usm)

theorem allocate_memory_uses_lockable_policy_witness:
  "use_unified_shared_memory usm_enabled all_tiers_engine \<and>
   \<not> is_image_2d (format buffer_layout) \<and>
   support_allocation_type (get_mem_caps (engine_device all_tiers_engine)) usm_host \<and>
   allocate_memory usm_enabled reporting_backend all_tiers_engine buffer_layout True =
     (Inr usm_host, all_tiers_engine)"
proof -
  have buffer: "\<not> is_image_2d (format buffer_layout)"
    by (simp add: buffer_layout_def)
  have "allocate_memory usm_enabled reporting_backend all_tiers_engine buffer_layout True =
      reporting_backend all_tiers_engine buffer_layout usm_host True"
    using use_usm_all_tiers all_tiers_lists(2) buffer
      allocate_memory_uses_lockable_policy
        [of usm_enabled reporting_backend all_tiers_engine buffer_layout True]
    by blast
  then show ?thesis
    using use_usm_all_tiers all_tiers_lists(2) buffer
    by (simp add: reporting_backend_def)
qed

subsection \<open>Debits above the balance\<close>

lemma engine_with_three:
  "memory_usage_map (add_memory_used all_tiers_engine 3 usm_host) usm_host = Some 3"
  "get_used_device_memory (add_memory_used all_tiers_engine 3 usm_host) usm_host = 3"
  "get_max_used_device_memory (add_memory_used all_tiers_engine 3 usm_host) usm_host = 3"
  by (simp_all add: add_memory_used_def all_tiers_engine_def Let_def subscript_def load_def
      get_used_device_memory_def get_max_used_device_memory_def)

text \<open>
  C3, as stated, fails: with 3 bytes tracked for \<open>usm_host\<close>, a debit of 5 bytes returns
  normally and leaves the balance \<open>2^64 - 2\<close>.
\<close>

theorem subtract_above_balance_counterexample:
  "get_used_device_memory (add_memory_used all_tiers_engine 3 usm_host) usm_host < 5 \<and>
   fst (subtract_memory_used (add_memory_used all_tiers_engine 3 usm_host) 5 usm_host) =
     Inr () \<and>
   get_used_device_memory
     (snd (subtract_memory_used (add_memory_used all_tiers_engine 3 usm_host) 5 usm_host))
     usm_host = 18446744073709551614"
  using engine_with_three
  by (simp add: subtract_memory_used_def get_used_device_memory_def)

text \<open>
  C3, amended. A debit of an amount strictly greater than the tracked balance of its type
  is rejected with an error only when the type has no ledger entry (and then the engine is
  left as it was). When the type has an entry the debit returns normally: the balance is
  not clamped to zero, it becomes the balance minus the amount modulo \<open>2^64\<close>, that is
  \<open>2^64 + balance - amount\<close>, which is not zero; the peak of the type is unchanged.
\<close>

theorem subtract_above_balance_wraps:
  assumes "get_used_device_memory e ty < bytes"
  shows "case memory_usage_map e ty of
      None \<Rightarrow>
        subtract_memory_used e bytes ty =
          (Inl (RuntimeError ''Attempt to free unallocated memory''), e)
    | Some v \<Rightarrow>
        fst (subtract_memory_used e bytes ty) = Inr () \<and>
        get_used_device_memory (snd (subtract_memory_used e bytes ty)) ty = v - bytes \<and>
        unat (get_used_device_memory (snd (subtract_memory_used e bytes ty)) ty) =
          2 ^ 64 + unat v - unat bytes \<and>
        get_used_device_memory (snd (subtract_memory_used e bytes ty)) ty \<noteq> 0 \<and>
        get_max_used_device_memory (snd (subtract_memory_used e bytes ty)) ty =
          get_max_used_device_memory e ty"
proof (cases "memory_usage_map e ty")
  case None
  then show ?thesis by (simp add: subtract_memory_used_def)
next
  case (Some v)
  with assms have less: "v < bytes"
    by (simp add: get_used_device_memory_def)
  then have "\<not> unat bytes \<le> unat v"
    by (simp add: word_less_nat_alt)
  then have wrap: "unat (v - bytes) = 2 ^ 64 + unat v - unat bytes"
    by (simp add: unat_sub_if_size word_size)
  have nonzero: "v - bytes \<noteq> 0"
    using less by auto
  have after: "get_used_device_memory (snd (subtract_memory_used e bytes ty)) ty = v - bytes"
    using Some by (simp add: subtract_memory_used_def get_used_device_memory_def)
  have ok: "fst (subtract_memory_used e bytes ty) = Inr ()"
    using Some by (simp add: subtract_memory_used_def)
  show ?thesis
    using Some after ok wrap nonzero by (simp add: get_max_subtract)
qed

theorem subtract_above_balance_wraps_witness:
  "get_used_device_memory (add_memory_used all_tiers_engine 3 usm_host) usm_host < 5 \<and>
   fst (subtract_memory_used (add_memory_used all_tiers_engine 3 usm_host) 5 usm_host) =
     Inr () \<and>
   unat (get_used_device_memory
     (snd (subtract_memory_used (add_memory_used all_tiers_engine 3 usm_host) 5 usm_host))
     usm_host) = 18446744073709551614 \<and>
   get_max_used_device_memory
     (snd (subtract_memory_used (add_memory_used all_tiers_engine 3 usm_host) 5 usm_host))
     usm_host = 3"
proof -
  have less: "get_used_device_memory (add_memory_used all_tiers_engine 3 usm_host) usm_host < 5"
    by (simp add: engine_with_three)
  show ?thesis
    using less engine_with_three
      subtract_above_balance_wraps [OF less]
    by simp
qed

subsection \<open>Engine factory\<close>

text \<open>
  C8. When device discovery returns no device, the factory fails with the assertion whose
  message names the engine type and the runtime type and points to the driver setup guide.
  No engine is returned, and the backend's engine constructor plays no part: the result is
  the same whatever that constructor is.
\<close>

theorem create_without_devices_fails:
  assumes "get_available_devices env engine_type runtime_type = []"
  shows "create env engine_type runtime_type =
      Inl (AssertFailure (no_devices_message env engine_type runtime_type)) \<and>
    create (env\<lparr>create_ocl_engine := make_engine\<rparr>) engine_type runtime_type =
      create env engine_type runtime_type"
  using assms by (simp add: create_def no_devices_message_def)

theorem create_without_devices_fails_witness:
  "get_available_devices no_device_env ocl () = [] \<and>
   create no_device_env ocl () =
     Inl (AssertFailure
       (''[GPU] Can'' @ [CHR 0x27] @ ''t create ocl engine for ocl runtime as no suitable '' @
        ''devices are found'' @ [CHR 0x0A] @
        ''[GPU] Please check OpenVINO documentation for GPU drivers setup guide.'' @
        [CHR 0x0A]))"
proof -
  have none: "get_available_devices no_device_env ocl () = []"
    by (simp add: no_device_env_def)
  have msg: "no_devices_message no_device_env ocl () =
      ''[GPU] Can'' @ [CHR 0x27] @ ''t create ocl engine for ocl runtime as no suitable '' @
      ''devices are found'' @ [CHR 0x0A] @
      ''[GPU] Please check OpenVINO documentation for GPU drivers setup guide.'' @ [CHR 0x0A]"
    by (simp add: no_devices_message_def no_device_env_def)
  show ?thesis
    using none msg create_without_devices_fails [OF none] by simp
qed


subsection \<open>Peak and balance over sequences of calls\<close>

lemma peak_sorted:
  "sorted (map (\<lambda>s. get_max_used_device_memory s ty) (ledger_states ty e calls))"
proof (induction calls arbitrary: e)
  case Nil
  show ?case by simp
next
  case (Cons c cs)
  have step: "get_max_used_device_memory e ty \<le>
      get_max_used_device_memory (snd (perform ty e c)) ty"
    by (cases c) (simp_all add: get_max_add get_max_subtract)
  have first_least: "\<forall>s \<in> set (ledger_states ty (snd (perform ty e c)) cs).
      get_max_used_device_memory (snd (perform ty e c)) ty \<le> get_max_used_device_memory s ty"
    using Cons.IH [of "snd (perform ty e c)"]
    by (cases cs) auto
  show ?case
    using Cons.IH [of "snd (perform ty e c)"] step first_least
    by (auto intro: order_trans)
qed

lemma peak_bounds_current:
  "get_used_device_memory e ty \<le> get_max_used_device_memory e ty \<Longrightarrow>
   debits_covered ty e calls \<Longrightarrow>
   \<forall>s \<in> set (ledger_states ty e calls).
     get_used_device_memory s ty \<le> get_max_used_device_memory s ty"
proof (induction calls arbitrary: e)
  case Nil
  then show ?case by simp
next
  case (Cons c cs)
  show ?case
  proof (cases c)
    case (Credit bytes)
    have "get_used_device_memory (add_memory_used e bytes ty) ty
        \<le> get_max_used_device_memory (add_memory_used e bytes ty) ty"
      by (simp add: get_used_add get_max_add)
    with Cons Credit show ?thesis by simp
  next
    case (Debit bytes)
    from Cons.prems Debit have b: "bytes \<le> get_used_device_memory e ty" by simp
    have "get_used_device_memory e ty - bytes \<le> get_used_device_memory e ty"
      using b by (simp add: word_sub_le)
    then have "get_used_device_memory (snd (subtract_memory_used e bytes ty)) ty
        \<le> get_max_used_device_memory (snd (subtract_memory_used e bytes ty)) ty"
      using Cons.prems(1) b by (simp add: get_used_subtract_covered get_max_subtract)
    with Cons Debit show ?thesis by simp
  qed
qed

lemma mod_shift:
  fixes r c d q m :: nat
  assumes "d \<le> r + c"
  shows "(q * m + r + c - d) mod m = (r + c - d) mod m"
proof -
  have "q * m + r + c - d = (r + c - d) + q * m"
    using assms by simp
  then show ?thesis by simp
qed

lemma balance_after_calls:
  "debits_covered ty e calls \<Longrightarrow>
   debited calls \<le> unat (get_used_device_memory e ty) + credited calls \<and>
   unat (get_used_device_memory (after_calls ty e calls) ty) =
     (unat (get_used_device_memory e ty) + credited calls - debited calls) mod 2 ^ 64"
proof (induction calls arbitrary: e)
  case Nil
  have "unat (get_used_device_memory e ty) < 2 ^ 64"
    using unsigned_less [of "get_used_device_memory e ty"] by simp
  then show ?case by simp
next
  case (Cons c cs)
  show ?case
  proof (cases c)
    case (Credit bytes)
    let ?e' = "add_memory_used e bytes ty"
    let ?g = "unat (get_used_device_memory e ty)"
    let ?r = "(?g + unat bytes) mod 2 ^ 64"
    from Cons.prems Credit have cov: "debits_covered ty ?e' cs" by simp
    have u: "unat (get_used_device_memory ?e' ty) = ?r"
      by (simp add: get_used_add unat_add_mod)
    from Cons.IH [OF cov] u
    have le: "debited cs \<le> ?r + credited cs"
      and fin: "unat (get_used_device_memory (after_calls ty ?e' cs) ty) =
        (?r + credited cs - debited cs) mod 2 ^ 64"
      by simp_all
    have split: "?g + unat bytes = (?g + unat bytes) div 2 ^ 64 * 2 ^ 64 + ?r"
      by simp
    have r_le: "?r \<le> ?g + unat bytes" by simp
    have "(?g + unat bytes + credited cs - debited cs) mod 2 ^ 64 =
        (?r + credited cs - debited cs) mod 2 ^ 64"
      using mod_shift [OF le, of "(?g + unat bytes) div 2 ^ 64" "2 ^ 64"] split
      by simp
    with fin le r_le Credit show ?thesis
      by (simp add: add.assoc)
  next
    case (Debit bytes)
    let ?e' = "snd (subtract_memory_used e bytes ty)"
    let ?g = "unat (get_used_device_memory e ty)"
    from Cons.prems Debit have b: "bytes \<le> get_used_device_memory e ty"
      and cov: "debits_covered ty ?e' cs" by simp_all
    have bn: "unat bytes \<le> ?g" using b by (simp add: word_le_nat_alt)
    have u: "unat (get_used_device_memory ?e' ty) = ?g - unat bytes"
      using b by (simp add: get_used_subtract_covered unat_sub_le)
    from Cons.IH [OF cov] u
    have le: "debited cs \<le> ?g - unat bytes + credited cs"
      and fin: "unat (get_used_device_memory (after_calls ty ?e' cs) ty) =
        (?g - unat bytes + credited cs - debited cs) mod 2 ^ 64"
      by simp_all
    have "?g - unat bytes + credited cs - debited cs =
        ?g + credited cs - (unat bytes + debited cs)"
      using bn by simp
    with fin le bn Debit show ?thesis by simp
  qed
qed

lemma fresh_ledger:
  "get_used_device_memory all_tiers_engine ty = 0"
  "get_max_used_device_memory all_tiers_engine ty = 0"
  by (simp_all add: get_used_device_memory_def get_max_used_device_memory_def
      all_tiers_engine_def)

lemma credit_3_debit_5:
  "get_used_device_memory (after_calls usm_host all_tiers_engine [Credit 3, Debit 5]) usm_host =
     18446744073709551614"
  "get_max_used_device_memory (after_calls usm_host all_tiers_engine [Credit 3, Debit 5])
     usm_host = 3"
  using engine_with_three
  by (simp_all add: subtract_memory_used_def get_used_device_memory_def
      get_max_used_device_memory_def)

text \<open>
  C4, as stated, fails: from the empty ledger, a credit of 3 bytes followed by a debit of
  5 bytes leaves the balance \<open>2^64 - 2\<close> above the peak 3.
\<close>

theorem peak_at_least_current_counterexample:
  "get_used_device_memory (after_calls usm_host all_tiers_engine [Credit 3, Debit 5]) usm_host =
     18446744073709551614 \<and>
   get_max_used_device_memory (after_calls usm_host all_tiers_engine [Credit 3, Debit 5])
     usm_host = 3 \<and>
   \<not> (\<forall>s \<in> set (ledger_states usm_host all_tiers_engine [Credit 3, Debit 5]).
        get_used_device_memory s usm_host \<le> get_max_used_device_memory s usm_host)"
proof -
  let ?final = "after_calls usm_host all_tiers_engine [Credit 3, Debit 5]"
  have member: "?final \<in> set (ledger_states usm_host all_tiers_engine [Credit 3, Debit 5])"
    by simp
  have above: "\<not> get_used_device_memory ?final usm_host \<le>
      get_max_used_device_memory ?final usm_host"
    by (simp only: credit_3_debit_5) simp
  from member above
  have "\<not> (\<forall>s \<in> set (ledger_states usm_host all_tiers_engine [Credit 3, Debit 5]).
        get_used_device_memory s usm_host \<le> get_max_used_device_memory s usm_host)"
    by blast
  then show ?thesis
    using credit_3_debit_5 by blast
qed

text \<open>
  C4, amended. Over every finite sequence of credits and debits on a type, from any
  ledger, the peak of the type is non-decreasing. The peak is at least the balance at every
  point of the sequence when it is so at the start (as in the empty ledger) and each debit
  is at most the balance at its point.
\<close>

theorem peak_monotone_and_bounds_covered_balance:
  "sorted (map (\<lambda>s. get_max_used_device_memory s ty) (ledger_states ty e calls)) \<and>
   (get_used_device_memory e ty \<le> get_max_used_device_memory e ty \<and>
    debits_covered ty e calls \<longrightarrow>
      (\<forall>s \<in> set (ledger_states ty e calls).
         get_used_device_memory s ty \<le> get_max_used_device_memory s ty))"
  using peak_sorted [of ty e calls] peak_bounds_current [of e ty calls]
  by blast

theorem peak_monotone_and_bounds_covered_balance_witness:
  "get_used_device_memory all_tiers_engine usm_host \<le>
     get_max_used_device_memory all_tiers_engine usm_host \<and>
   debits_covered usm_host all_tiers_engine [Credit 8, Debit 3, Credit 1] \<and>
   map (\<lambda>s. get_max_used_device_memory s usm_host)
     (ledger_states usm_host all_tiers_engine [Credit 8, Debit 3, Credit 1]) = [0, 8, 8, 8] \<and>
   map (\<lambda>s. get_used_device_memory s usm_host)
     (ledger_states usm_host all_tiers_engine [Credit 8, Debit 3, Credit 1]) = [0, 8, 5, 6] \<and>
   sorted (map (\<lambda>s. get_max_used_device_memory s usm_host)
     (ledger_states usm_host all_tiers_engine [Credit 8, Debit 3, Credit 1])) \<and>
   get_used_device_memory (after_calls usm_host all_tiers_engine [Credit 8, Debit 3, Credit 1])
     usm_host \<le>
   get_max_used_device_memory (after_calls usm_host all_tiers_engine [Credit 8, Debit 3, Credit 1])
     usm_host"
proof -
  let ?calls = "[Credit 8, Debit 3, Credit 1]"
  have start: "get_used_device_memory all_tiers_engine usm_host \<le>
      get_max_used_device_memory all_tiers_engine usm_host"
    by (simp add: fresh_ledger)
  have covered: "debits_covered usm_host all_tiers_engine ?calls"
    by (simp add: get_used_add fresh_ledger)
  have peaks: "map (\<lambda>s. get_max_used_device_memory s usm_host)
      (ledger_states usm_host all_tiers_engine ?calls) = [0, 8, 8, 8]"
    by (simp add: get_max_add get_used_add get_max_subtract get_used_subtract_covered
        fresh_ledger)
  have balances: "map (\<lambda>s. get_used_device_memory s usm_host)
      (ledger_states usm_host all_tiers_engine ?calls) = [0, 8, 5, 6]"
    by (simp add: get_used_add get_used_subtract_covered fresh_ledger)
  have last_state: "after_calls usm_host all_tiers_engine ?calls \<in>
      set (ledger_states usm_host all_tiers_engine ?calls)"
    by simp
  note inst = peak_monotone_and_bounds_covered_balance [of usm_host all_tiers_engine ?calls]
  from inst have sorted_peaks: "sorted (map (\<lambda>s. get_max_used_device_memory s usm_host)
      (ledger_states usm_host all_tiers_engine ?calls))"
    by (rule conjunct1)
  from inst start covered last_state
  have bounded: "get_used_device_memory (after_calls usm_host all_tiers_engine ?calls) usm_host \<le>
      get_max_used_device_memory (after_calls usm_host all_tiers_engine ?calls) usm_host"
    by blast
  from start covered peaks balances sorted_peaks bounded show ?thesis
    by (intro conjI)
qed

text \<open>
  C7, as stated, fails: from the empty ledger, a credit of \<open>2^64 - 1\<close> bytes followed by
  a credit of 1 byte totals \<open>C = 2^64\<close> with no debit, and the balance reported is 0.
\<close>

theorem conservation_counterexample:
  "debited [Credit 18446744073709551615, Credit 1] \<le>
     credited [Credit 18446744073709551615, Credit 1] \<and>
   debits_covered usm_host all_tiers_engine [Credit 18446744073709551615, Credit 1] \<and>
   credited [Credit 18446744073709551615, Credit 1] -
     debited [Credit 18446744073709551615, Credit 1] = 18446744073709551616 \<and>
   unat (get_used_device_memory
     (after_calls usm_host all_tiers_engine [Credit 18446744073709551615, Credit 1])
     usm_host) = 0"
  by (simp add: get_used_add fresh_ledger)

text \<open>
  C7, amended. For every finite sequence of credits summing to C and debits summing to D on
  a type, with D at most C and each debit at most the balance at its point, started from a
  ledger whose balance for the type is 0, the final balance is \<open>(C - D) mod 2^64\<close>: the
  counter is a \<^verbatim>\<open>uint64_t\<close>. It is \<open>C - D\<close> whenever C is below \<open>2^64\<close>.
\<close>

theorem conservation_modulo_word:
  assumes "get_used_device_memory e ty = 0"
    and "debited calls \<le> credited calls"
    and "debits_covered ty e calls"
  shows "unat (get_used_device_memory (after_calls ty e calls) ty) =
      (credited calls - debited calls) mod 2 ^ 64 \<and>
    (credited calls < 2 ^ 64 \<longrightarrow>
      unat (get_used_device_memory (after_calls ty e calls) ty) =
        credited calls - debited calls)"
proof -
  from balance_after_calls [OF assms(3)] assms(1)
  have eq: "unat (get_used_device_memory (after_calls ty e calls) ty) =
      (credited calls - debited calls) mod 2 ^ 64"
    by simp
  have "credited calls < 2 ^ 64 \<Longrightarrow>
      (credited calls - debited calls) mod 2 ^ 64 = credited calls - debited calls"
    by simp
  with eq show ?thesis by simp
qed

theorem conservation_modulo_word_witness:
  "get_used_device_memory all_tiers_engine usm_host = 0 \<and>
   debited [Credit 8, Debit 3, Credit 1] \<le> credited [Credit 8, Debit 3, Credit 1] \<and>
   debits_covered usm_host all_tiers_engine [Credit 8, Debit 3, Credit 1] \<and>
   credited [Credit 8, Debit 3, Credit 1] = 9 \<and>
   debited [Credit 8, Debit 3, Credit 1] = 3 \<and>
   unat (get_used_device_memory
     (after_calls usm_host all_tiers_engine [Credit 8, Debit 3, Credit 1]) usm_host) = 6"
proof -
  let ?calls = "[Credit 8, Debit 3, Credit 1]"
  have start: "get_used_device_memory all_tiers_engine usm_host = 0"
    by (simp add: fresh_ledger)
  have totals: "credited ?calls = 9" "debited ?calls = 3"
    by simp_all
  have le: "debited ?calls \<le> credited ?calls"
    by simp
  have covered: "debits_covered usm_host all_tiers_engine ?calls"
    by (simp add: get_used_add fresh_ledger)
  from conservation_modulo_word [OF start le covered] totals
  have "unat (get_used_device_memory (after_calls usm_host all_tiers_engine ?calls) usm_host) = 6"
    by simp
  with start le covered totals show ?thesis
    by (intro conjI)
qed


end
